theory Spec2Isabelle
  imports Main "HOL-Library.Sublist"
begin

section \<open>Strings and numbers of the runtime\<close>

text \<open>
  A string is the list of the bytes of its UTF-8 encoding.  Of the white space class of
  the runtime (\<^verbatim>\<open>\s\<close>, \<^verbatim>\<open>trim\<close>) the ASCII members are modelled: tab, line feed,
  vertical tab, form feed, carriage return and space.  Numbers are integers.
\<close>

definition isSpace :: "char \<Rightarrow> bool" where
  "isSpace c \<longleftrightarrow>
     c = CHR 0x09 \<or> c = CHR 0x0A \<or> c = CHR 0x0B \<or> c = CHR 0x0C \<or> c = CHR 0x0D \<or> c = CHR '' ''"

definition trimStart :: "string \<Rightarrow> string" where
  "trimStart s = dropWhile isSpace s"

definition trimEnd :: "string \<Rightarrow> string" where
  "trimEnd s = rev (dropWhile isSpace (rev s))"

definition trim :: "string \<Rightarrow> string" where
  "trim s = trimEnd (trimStart s)"

text \<open>\<^verbatim>\<open>s.split(/\s+/).filter(Boolean)\<close>: the maximal runs of characters that are not white space.\<close>

fun splitWs :: "string \<Rightarrow> string list" where
  "splitWs [] = []"
| "splitWs (c # cs) =
     (if isSpace c then splitWs cs
      else if cs = [] \<or> isSpace (hd cs) then [c] # splitWs cs
      else (case splitWs cs of [] \<Rightarrow> [[c]] | w # ws \<Rightarrow> (c # w) # ws))"

text \<open>\<^verbatim>\<open>xs.join(sep)\<close>\<close>

fun join :: "string \<Rightarrow> string list \<Rightarrow> string" where
  "join sep [] = []"
| "join sep [x] = x"
| "join sep (x # y # ys) = x @ sep @ join sep (y # ys)"

text \<open>\<^verbatim>\<open>hay.indexOf(needle)\<close>, with \<open>None\<close> for \<open>-1\<close>, and \<^verbatim>\<open>hay.includes(needle)\<close>.\<close>

fun indexOf :: "string \<Rightarrow> string \<Rightarrow> nat option" where
  "indexOf needle [] = (if needle = [] then Some 0 else None)"
| "indexOf needle (c # cs) =
     (if prefix needle (c # cs) then Some 0 else map_option Suc (indexOf needle cs))"

definition strIncludes :: "string \<Rightarrow> string \<Rightarrow> bool" where
  "strIncludes hay needle \<longleftrightarrow> indexOf needle hay \<noteq> None"

definition startsWith :: "string \<Rightarrow> string \<Rightarrow> bool" where
  "startsWith s p \<longleftrightarrow> prefix p s"

text \<open>\<^verbatim>\<open>String(n)\<close> for an integer \<open>n\<close>: its decimal digits, with a minus sign when negative.\<close>

definition digitChar :: "nat \<Rightarrow> char" where
  "digitChar d = ''0123456789'' ! d"

function decimalDigits :: "int \<Rightarrow> string" where
  "decimalDigits n =
     (if n < 10 then [digitChar (nat n)]
      else decimalDigits (n div 10) @ [digitChar (nat (n mod 10))])"
  by pat_completeness auto
termination
  by (relation "measure nat") auto

declare decimalDigits.simps [simp del]

definition numToString :: "int \<Rightarrow> string" where
  "numToString i = (if i < 0 then CHR ''-'' # decimalDigits (- i) else decimalDigits i)"

section \<open>Dates of the runtime\<close>

text \<open>
  An instant is its number of milliseconds since the epoch.  The host supplies the parser
  of \<^verbatim>\<open>new Date(text)\<close> (\<open>None\<close> is the invalid date) and its local time zone, a fixed
  offset in minutes east of UTC.  The accessors follow ECMAScript: local time is the
  instant plus the offset, and the calendar fields are those of the proleptic Gregorian
  calendar.  The range limit of instants is not modelled.
\<close>

record Host =
  dateParse :: "string \<Rightarrow> int option"
  localOffsetMin :: int

definition localTime :: "Host \<Rightarrow> int \<Rightarrow> int" where
  "localTime h t = t + localOffsetMin h * 60000"

definition getMilliseconds :: "Host \<Rightarrow> int \<Rightarrow> int" where
  "getMilliseconds h t = localTime h t mod 1000"

definition getSeconds :: "Host \<Rightarrow> int \<Rightarrow> int" where
  "getSeconds h t = (localTime h t div 1000) mod 60"

definition getMinutes :: "Host \<Rightarrow> int \<Rightarrow> int" where
  "getMinutes h t = (localTime h t div 60000) mod 60"

definition getHours :: "Host \<Rightarrow> int \<Rightarrow> int" where
  "getHours h t = (localTime h t div 3600000) mod 24"

text \<open>Year, month (1 to 12) and day of the month of a day number counted from the epoch.\<close>

definition civilFromDays :: "int \<Rightarrow> int \<times> int \<times> int" where
  "civilFromDays z0 =
     (let z = z0 + 719468;
          era = z div 146097;
          doe = z - era * 146097;
          yoe = (doe - doe div 1460 + doe div 36524 - doe div 146096) div 365;
          doy = doe - (365 * yoe + yoe div 4 - yoe div 100);
          mp = (5 * doy + 2) div 153;
          d = doy - (153 * mp + 2) div 5 + 1;
          m = (if mp < 10 then mp + 3 else mp - 9);
          y = yoe + era * 400 + (if m \<le> 2 then 1 else 0)
      in (y, m, d))"

definition getDate :: "Host \<Rightarrow> int \<Rightarrow> int" where
  "getDate h t = snd (snd (civilFromDays (localTime h t div 86400000)))"

text \<open>\<^verbatim>\<open>getMonth()\<close> counts from 0.\<close>

definition getMonth :: "Host \<Rightarrow> int \<Rightarrow> int" where
  "getMonth h t = fst (snd (civilFromDays (localTime h t div 86400000))) - 1"

text \<open>\<^verbatim>\<open>setMinutes(min, sec, ms)\<close>: the local day and hour are kept, the rest replaced.\<close>

definition setMinutes :: "Host \<Rightarrow> int \<Rightarrow> int \<Rightarrow> int \<Rightarrow> int \<Rightarrow> int" where
  "setMinutes h t mi s ms =
     (localTime h t div 86400000) * 86400000 + getHours h t * 3600000
       + mi * 60000 + s * 1000 + ms - localOffsetMin h * 60000"

text \<open>
  A host in UTC whose parser reads the ECMAScript date-time format
  \<^verbatim>\<open>YYYY-MM-DDTHH:mm:ss.sssZ\<close>; other texts are outside this host's parser.
\<close>

definition digitVal :: "char \<Rightarrow> nat option" where
  "digitVal c =
     (let n = (of_char c :: nat) in if 48 \<le> n \<and> n \<le> 57 then Some (n - 48) else None)"

fun digitsVal :: "int \<Rightarrow> string \<Rightarrow> int option" where
  "digitsVal acc [] = Some acc"
| "digitsVal acc (c # cs) =
     (case digitVal c of None \<Rightarrow> None | Some d \<Rightarrow> digitsVal (10 * acc + int d) cs)"

definition daysFromCivil :: "int \<Rightarrow> int \<Rightarrow> int \<Rightarrow> int" where
  "daysFromCivil y0 m d =
     (let y = (if m \<le> 2 then y0 - 1 else y0);
          era = y div 400;
          yoe = y - era * 400;
          doy = (153 * (if m > 2 then m - 3 else m + 9) + 2) div 5 + d - 1;
          doe = yoe * 365 + yoe div 4 - yoe div 100 + doy
      in era * 146097 + doe - 719468)"

definition parseIsoUtc :: "string \<Rightarrow> int option" where
  "parseIsoUtc s =
     (if length s = 24 \<and> s ! 4 = CHR ''-'' \<and> s ! 7 = CHR ''-'' \<and> s ! 10 = CHR ''T''
         \<and> s ! 13 = CHR '':'' \<and> s ! 16 = CHR '':'' \<and> s ! 19 = CHR ''.'' \<and> s ! 23 = CHR ''Z''
      then
        (case (digitsVal 0 (take 4 s), digitsVal 0 (take 2 (drop 5 s)),
               digitsVal 0 (take 2 (drop 8 s)), digitsVal 0 (take 2 (drop 11 s)),
               digitsVal 0 (take 2 (drop 14 s)), digitsVal 0 (take 2 (drop 17 s)),
               digitsVal 0 (take 3 (drop 20 s))) of
           (Some y, Some mo, Some d, Some hh, Some mi, Some ss, Some ms) \<Rightarrow>
             if 1 \<le> mo \<and> mo \<le> 12 \<and> 1 \<le> d \<and> d \<le> 31 \<and> hh \<le> 23 \<and> mi \<le> 59 \<and> ss \<le> 59
             then Some (daysFromCivil y mo d * 86400000 + hh * 3600000
                         + mi * 60000 + ss * 1000 + ms)
             else None
         | _ \<Rightarrow> None)
      else None)"

definition utcHost :: Host where
  "utcHost = \<lparr>dateParse = parseIsoUtc, localOffsetMin = 0\<rparr>"

section \<open>Schedules and their crontab expression\<close>

datatype CronSchedule =
    Cron (expr: string) (tz: "string option") (staggerMs: "int option")
  | Every (everyMs: int) (anchorMs: "int option")
  | At (at: string)

datatype ScheduleResult = SchedOk string | SchedErr string

definition ONE_MINUTE_MS :: int where "ONE_MINUTE_MS = 60 * 1000"
definition ONE_HOUR_MS :: int where "ONE_HOUR_MS = 60 * ONE_MINUTE_MS"
definition ONE_DAY_MS :: int where "ONE_DAY_MS = 24 * ONE_HOUR_MS"

text \<open>A string option is truthy when it is present and not empty.\<close>

definition truthy :: "string option \<Rightarrow> bool" where
  "truthy v \<longleftrightarrow> (case v of None \<Rightarrow> False | Some s \<Rightarrow> s \<noteq> [])"

text \<open>
  \<^verbatim>\<open>resolveCrontabSchedule\<close>.  The three kinds are the constructors of the schedule, so
  the final \<^verbatim>\<open>unsupported schedule kind\<close> return has no input.  For an integer,
  \<^verbatim>\<open>Number.isInteger(everyMs / ONE_HOUR_MS)\<close> says that the hour divides it.
\<close>

definition resolveCrontabSchedule :: "Host \<Rightarrow> CronSchedule \<Rightarrow> ScheduleResult" where
  "resolveCrontabSchedule h schedule =
     (case schedule of
        Cron e z st \<Rightarrow>
          (let ex = trim e; parts = splitWs ex in
           if ex = [] then SchedErr ''cron expression is required''
           else if length parts = 6 then SchedErr ''crontab does not support 6-field cron (seconds)''
           else if length parts \<noteq> 5 then SchedErr ''crontab requires a 5-field cron expression''
           else if truthy z then SchedErr ''crontab scheduler does not support per-job timezones''
           else if (case st of None \<Rightarrow> False | Some n \<Rightarrow> n > 0)
             then SchedErr ''crontab scheduler does not support stagger''
           else SchedOk ex)
      | Every ms anchor \<Rightarrow>
          (if ms \<le> 0 then SchedErr ''every schedule requires a positive interval''
           else if anchor \<noteq> None then SchedErr ''crontab scheduler does not support anchored intervals''
           else if ms mod ONE_MINUTE_MS \<noteq> 0 then SchedErr ''crontab scheduler supports 1-minute granularity''
           else
             (let minutes = ms div ONE_MINUTE_MS in
              if minutes \<le> 0 then SchedErr ''every schedule must be at least 1 minute''
              else if minutes < 60 \<and> 60 mod minutes = 0
                then SchedOk (''*/'' @ numToString minutes @ '' * * * *'')
              else
                (let hours = ms div ONE_HOUR_MS in
                 if ms mod ONE_HOUR_MS = 0 \<and> hours > 0 \<and> 24 mod hours = 0
                 then SchedOk (''0 */'' @ numToString hours @ '' * * *'')
                 else
                   (let days = ms div ONE_DAY_MS in
                    if ms mod ONE_DAY_MS = 0 \<and> days > 0 \<and> days \<le> 31
                    then SchedOk (''0 0 */'' @ numToString days @ '' * *'')
                    else SchedErr ''every schedule interval is not representable in crontab''))))
      | At a \<Rightarrow>
          (let raw = trim a;
               when = (if raw = [] then None else dateParse h raw) in
           case when of
             None \<Rightarrow> SchedErr ''invalid schedule.at timestamp''
           | Some t \<Rightarrow>
               (let adjusted =
                      (if getSeconds h t > 0 \<or> getMilliseconds h t > 0
                       then setMinutes h t (getMinutes h t + 1) 0 0 else t);
                    minute = getMinutes h adjusted;
                    hour = getHours h adjusted;
                    day = getDate h adjusted;
                    month = getMonth h adjusted + 1
                in SchedOk (numToString minute @ '' '' @ numToString hour @ '' ''
                             @ numToString day @ '' '' @ numToString month @ '' *''))))"

section \<open>Jobs\<close>

text \<open>
  The job type of \<^verbatim>\<open>types.ts\<close>.  An optional field is an option; the session target,
  the wake mode and the delivery mode stay strings, since the decoder casts whatever text
  it reads.  The state holds the one field the store sets.
\<close>

record AgentTurnPayload =
  message :: string
  model :: "string option"
  thinking :: "string option"
  timeoutSeconds :: "int option"
  allowUnsafeExternalContent :: "bool option"
  deliver :: "bool option"
  payload_channel :: "string option"
  payload_to :: "string option"
  bestEffortDeliver :: "bool option"

datatype Payload = SystemEvent string | AgentTurn AgentTurnPayload

record Delivery =
  delivery_mode :: string
  delivery_channel :: "string option"
  delivery_to :: "string option"
  bestEffort :: "bool option"

record CronJobState =
  nextRunAtMs :: "int option"

record CronJob =
  job_id :: string
  agentId :: "string option"
  sessionKey :: "string option"
  name :: string
  description :: "string option"
  enabled :: bool
  deleteAfterRun :: "bool option"
  createdAtMs :: int
  updatedAtMs :: int
  schedule :: CronSchedule
  sessionTarget :: string
  wakeMode :: string
  payload :: Payload
  delivery :: "Delivery option"
  state :: CronJobState

section \<open>Percent encoding\<close>

text \<open>
  \<^verbatim>\<open>encodeURIComponent\<close> keeps the unreserved characters and writes every other byte
  as \<^verbatim>\<open>%XX\<close>.  (It throws on a lone surrogate, which a UTF-8 string cannot hold.)
\<close>

definition unreserved :: "char \<Rightarrow> bool" where
  "unreserved c \<longleftrightarrow>
     (let n = (of_char c :: nat) in
        (65 \<le> n \<and> n \<le> 90) \<or> (97 \<le> n \<and> n \<le> 122) \<or> (48 \<le> n \<and> n \<le> 57))
     \<or> c \<in> set ''-_.!~*()'' \<or> c = CHR 0x27"

definition hexChar :: "nat \<Rightarrow> char" where
  "hexChar n = ''0123456789ABCDEF'' ! n"

definition pctByte :: "char \<Rightarrow> string" where
  "pctByte c = [CHR ''%'', hexChar ((of_char c :: nat) div 16), hexChar ((of_char c :: nat) mod 16)]"

definition encodeURIComponent :: "string \<Rightarrow> string" where
  "encodeURIComponent s = concat (map (\<lambda>c. if unreserved c then [c] else pctByte c) s)"

definition encodeValue :: "string \<Rightarrow> string" where
  "encodeValue v = encodeURIComponent v"

text \<open>
  \<^verbatim>\<open>decodeURIComponent\<close>: every \<^verbatim>\<open>%\<close> must start an escape of two hexadecimal
  digits, and the escaped bytes from 0x80 up must form well-formed UTF-8 sequences;
  otherwise it throws (\<open>None\<close>).
\<close>

definition hexVal :: "char \<Rightarrow> nat option" where
  "hexVal c =
     (let n = (of_char c :: nat) in
      if 48 \<le> n \<and> n \<le> 57 then Some (n - 48)
      else if 65 \<le> n \<and> n \<le> 70 then Some (n - 55)
      else if 97 \<le> n \<and> n \<le> 102 then Some (n - 87)
      else None)"

datatype Piece = Lit char | Esc nat

fun unescape :: "string \<Rightarrow> Piece list option" where
  "unescape [] = Some []"
| "unescape (c # cs) =
     (if c = CHR ''%'' then
        (case cs of
           h1 # h2 # rest \<Rightarrow>
             (case (hexVal h1, hexVal h2) of
                (Some a, Some b) \<Rightarrow> map_option ((#) (Esc (16 * a + b))) (unescape rest)
              | _ \<Rightarrow> None)
         | _ \<Rightarrow> None)
      else map_option ((#) (Lit c)) (unescape cs))"

definition cont :: "nat \<Rightarrow> bool" where
  "cont b \<longleftrightarrow> 0x80 \<le> b \<and> b \<le> 0xBF"

definition second3 :: "nat \<Rightarrow> nat \<Rightarrow> bool" where
  "second3 b b1 \<longleftrightarrow>
     (if b = 0xE0 then 0xA0 \<le> b1 \<and> b1 \<le> 0xBF
      else if b = 0xED then 0x80 \<le> b1 \<and> b1 \<le> 0x9F else cont b1)"

definition second4 :: "nat \<Rightarrow> nat \<Rightarrow> bool" where
  "second4 b b1 \<longleftrightarrow>
     (if b = 0xF0 then 0x90 \<le> b1 \<and> b1 \<le> 0xBF
      else if b = 0xF4 then 0x80 \<le> b1 \<and> b1 \<le> 0x8F else cont b1)"

fun utf8Pieces :: "Piece list \<Rightarrow> string option" where
  "utf8Pieces [] = Some []"
| "utf8Pieces (Lit c # r) = map_option ((#) c) (utf8Pieces r)"
| "utf8Pieces (Esc b # r) =
     (if b < 0x80 then map_option ((#) (char_of b)) (utf8Pieces r)
      else if 0xC2 \<le> b \<and> b \<le> 0xDF then
        (case r of
           Esc b1 # r1 \<Rightarrow>
             if cont b1 then map_option ((@) [char_of b, char_of b1]) (utf8Pieces r1) else None
         | _ \<Rightarrow> None)
      else if 0xE0 \<le> b \<and> b \<le> 0xEF then
        (case r of
           Esc b1 # Esc b2 # r2 \<Rightarrow>
             if second3 b b1 \<and> cont b2
             then map_option ((@) [char_of b, char_of b1, char_of b2]) (utf8Pieces r2) else None
         | _ \<Rightarrow> None)
      else if 0xF0 \<le> b \<and> b \<le> 0xF4 then
        (case r of
           Esc b1 # Esc b2 # Esc b3 # r3 \<Rightarrow>
             if second4 b b1 \<and> cont b2 \<and> cont b3
             then map_option ((@) [char_of b, char_of b1, char_of b2, char_of b3]) (utf8Pieces r3)
             else None
         | _ \<Rightarrow> None)
      else None)"

definition decodeURIComponent :: "string \<Rightarrow> string option" where
  "decodeURIComponent s = (case unescape s of None \<Rightarrow> None | Some ps \<Rightarrow> utf8Pieces ps)"

definition decodeValue :: "string \<Rightarrow> string" where
  "decodeValue v = (case decodeURIComponent v of None \<Rightarrow> v | Some s \<Rightarrow> s)"

text \<open>The byte strings that are the UTF-8 encoding of a text (Unicode, table 3-7).\<close>

fun wellFormed :: "string \<Rightarrow> bool" where
  "wellFormed [] = True"
| "wellFormed (c # r) =
     (let b = (of_char c :: nat) in
      if b < 0x80 then wellFormed r
      else if 0xC2 \<le> b \<and> b \<le> 0xDF then
        (case r of c1 # r1 \<Rightarrow> cont (of_char c1) \<and> wellFormed r1 | _ \<Rightarrow> False)
      else if 0xE0 \<le> b \<and> b \<le> 0xEF then
        (case r of
           c1 # c2 # r2 \<Rightarrow> second3 b (of_char c1) \<and> cont (of_char c2) \<and> wellFormed r2
         | _ \<Rightarrow> False)
      else if 0xF0 \<le> b \<and> b \<le> 0xF4 then
        (case r of
           c1 # c2 # c3 # r3 \<Rightarrow>
             second4 b (of_char c1) \<and> cont (of_char c2) \<and> cont (of_char c3) \<and> wellFormed r3
         | _ \<Rightarrow> False)
      else False)"

section \<open>Encoding a job as tagged crontab lines\<close>

definition TAG :: string where "TAG = ''openclaw:cron''"
definition TAG_PREFIX :: string where "TAG_PREFIX = ''# '' @ TAG"
definition CRON_COMMAND :: string where "CRON_COMMAND = ''openclaw cron run''"

text \<open>
  \<^verbatim>\<open>buildTaggedLine\<close>.  The record of values is the list of its entries in insertion
  order.
\<close>

definition buildTaggedLine :: "(string \<times> string) list \<Rightarrow> string" where
  "buildTaggedLine vals =
     (let parts = map (\<lambda>(key, v). key @ ''='' @ encodeValue v) (filter (\<lambda>(key, v). v \<noteq> []) vals)
      in trim (TAG_PREFIX @ '' '' @ join '' '' parts))"

definition boolText :: "bool \<Rightarrow> string" where
  "boolText b = (if b then ''true'' else ''false'')"

text \<open>The three guarded assignments: a truthy string, a defined boolean, a defined number.\<close>

definition whenTruthy :: "string \<Rightarrow> string option \<Rightarrow> (string \<times> string) list" where
  "whenTruthy key v = (case v of None \<Rightarrow> [] | Some s \<Rightarrow> if s = [] then [] else [(key, s)])"

definition whenBool :: "string \<Rightarrow> bool option \<Rightarrow> (string \<times> string) list" where
  "whenBool key v = (case v of None \<Rightarrow> [] | Some b \<Rightarrow> [(key, boolText b)])"

definition whenNumber :: "string \<Rightarrow> int option \<Rightarrow> (string \<times> string) list" where
  "whenNumber key v = (case v of None \<Rightarrow> [] | Some n \<Rightarrow> [(key, numToString n)])"

definition baseValues :: "CronJob \<Rightarrow> (string \<times> string) list" where
  "baseValues job =
     [(''id'', job_id job), (''name'', name job), (''enabled'', boolText (enabled job)),
      (''session_target'', sessionTarget job), (''wake_mode'', wakeMode job),
      (''created_at_ms'', numToString (createdAtMs job)),
      (''updated_at_ms'', numToString (updatedAtMs job))]
     @ whenTruthy ''description'' (description job)
     @ whenTruthy ''agent_id'' (agentId job)
     @ whenTruthy ''session_key'' (sessionKey job)
     @ whenBool ''delete_after_run'' (deleteAfterRun job)"

definition payloadValues :: "CronJob \<Rightarrow> (string \<times> string) list" where
  "payloadValues job =
     (case payload job of
        AgentTurn p \<Rightarrow>
          [(''id'', job_id job), (''payload_kind'', ''agentTurn''), (''payload_message'', message p)]
          @ whenTruthy ''payload_model'' (model p)
          @ whenTruthy ''payload_thinking'' (thinking p)
          @ whenNumber ''payload_timeout_seconds'' (timeoutSeconds p)
          @ whenBool ''payload_allow_unsafe_external_content'' (allowUnsafeExternalContent p)
          @ whenBool ''payload_deliver'' (deliver p)
          @ whenTruthy ''payload_channel'' (payload_channel p)
          @ whenTruthy ''payload_to'' (payload_to p)
          @ whenBool ''payload_best_effort_deliver'' (bestEffortDeliver p)
      | SystemEvent txt \<Rightarrow>
          [(''id'', job_id job), (''payload_kind'', ''systemEvent''), (''payload_text'', txt)])"

definition deliveryValues :: "CronJob \<Rightarrow> Delivery \<Rightarrow> (string \<times> string) list" where
  "deliveryValues job d =
     [(''id'', job_id job), (''delivery_mode'', delivery_mode d)]
     @ whenTruthy ''delivery_channel'' (delivery_channel d)
     @ whenTruthy ''delivery_to'' (delivery_to d)
     @ whenBool ''delivery_best_effort'' (bestEffort d)"

definition scheduleKind :: "CronSchedule \<Rightarrow> string" where
  "scheduleKind s = (case s of Cron _ _ _ \<Rightarrow> ''cron'' | Every _ _ \<Rightarrow> ''every'' | At _ \<Rightarrow> ''at'')"

definition scheduleValues :: "CronJob \<Rightarrow> (string \<times> string) list" where
  "scheduleValues job =
     [(''id'', job_id job), (''schedule_kind'', scheduleKind (schedule job))]
     @ (case schedule job of
          At a \<Rightarrow> [(''schedule_at'', a)]
        | Every ms anchor \<Rightarrow>
            [(''schedule_every_ms'', numToString ms)] @ whenNumber ''schedule_anchor_ms'' anchor
        | Cron e z st \<Rightarrow>
            [(''schedule_expr'', e)] @ whenTruthy ''schedule_tz'' z
            @ whenNumber ''schedule_stagger_ms'' st)"

text \<open>The metadata lines, pushed before the schedule is resolved.\<close>

definition metadataLines :: "CronJob \<Rightarrow> string list" where
  "metadataLines job =
     [buildTaggedLine (baseValues job), buildTaggedLine (payloadValues job)]
     @ (case delivery job of
          None \<Rightarrow> []
        | Some d \<Rightarrow> if delivery_mode d \<noteq> ''none'' then [buildTaggedLine (deliveryValues job d)] else [])
     @ [buildTaggedLine (scheduleValues job)]"

definition scheduleTzOf :: "CronSchedule \<Rightarrow> string option" where
  "scheduleTzOf s = (case s of Cron _ z _ \<Rightarrow> (if truthy z then z else None) | _ \<Rightarrow> None)"

definition executionLine :: "string \<Rightarrow> string \<Rightarrow> string" where
  "executionLine cronExpr ident =
     cronExpr @ '' '' @ CRON_COMMAND @ '' '' @ ident @ '' '' @ TAG_PREFIX @ '' id='' @ encodeValue ident"

text \<open>\<^verbatim>\<open>buildTaggedEntryLines\<close>; \<open>Inl\<close> is the message of the error it throws.\<close>

definition buildTaggedEntryLines :: "Host \<Rightarrow> CronJob \<Rightarrow> string + string list" where
  "buildTaggedEntryLines h job =
     (case resolveCrontabSchedule h (schedule job) of
        SchedErr e \<Rightarrow> Inl (''job '' @ job_id job @ '': '' @ e)
      | SchedOk cronExpr \<Rightarrow>
          (let scheduleLine = executionLine cronExpr (job_id job) in
           Inr (metadataLines job
                @ (case scheduleTzOf (schedule job) of None \<Rightarrow> [] | Some z \<Rightarrow> [''CRON_TZ='' @ z])
                @ [if enabled job then scheduleLine else ''# '' @ scheduleLine]
                @ (case scheduleTzOf (schedule job) of None \<Rightarrow> [] | Some z \<Rightarrow> [''CRON_TZ='']))))"

section \<open>Decoding tagged crontab lines\<close>

text \<open>
  \<^verbatim>\<open>Number.parseInt(text, 10)\<close>: leading white space, an optional sign, then the longest
  run of digits; \<open>None\<close> is NaN.
\<close>

definition digitsPrefix :: "string \<Rightarrow> int option" where
  "digitsPrefix u =
     (let ds = takeWhile (\<lambda>c. digitVal c \<noteq> None) u in if ds = [] then None else digitsVal 0 ds)"

definition parseInt :: "string \<Rightarrow> int option" where
  "parseInt s =
     (case dropWhile isSpace s of
        [] \<Rightarrow> None
      | c # r \<Rightarrow>
          if c = CHR ''-'' then map_option uminus (digitsPrefix r)
          else if c = CHR ''+'' then digitsPrefix r
          else digitsPrefix (c # r))"

definition kvStep :: "(string \<rightharpoonup> string) \<Rightarrow> string \<Rightarrow> (string \<rightharpoonup> string)" where
  "kvStep out token =
     (case indexOf ''='' token of
        None \<Rightarrow> out
      | Some eq \<Rightarrow>
          if eq \<le> 0 then out
          else (let key = trim (take eq token);
                    rawValue = trim (drop (eq + 1) token)
                in if key = [] then out else out(key \<mapsto> decodeValue rawValue)))"

definition parseKeyValueTokens :: "string \<Rightarrow> (string \<rightharpoonup> string)" where
  "parseKeyValueTokens txt = foldl kvStep Map.empty (splitWs (trim txt))"

definition parseTaggedLine :: "string \<Rightarrow> (string \<rightharpoonup> string) option" where
  "parseTaggedLine line =
     (case indexOf TAG_PREFIX line of
        None \<Rightarrow> None
      | Some markerIndex \<Rightarrow>
          Some (parseKeyValueTokens (trim (drop (markerIndex + length TAG_PREFIX) line))))"

text \<open>\<^verbatim>\<open>parseScheduleLine\<close> returns the expression and the disabled flag.\<close>

definition parseScheduleLine :: "string \<Rightarrow> (string \<times> bool) option" where
  "parseScheduleLine rawLine =
     (let trimmed = trimStart rawLine;
          disabled = startsWith trimmed ''#'';
          line = (if disabled then dropWhile isSpace (tl trimmed) else trimmed)
      in if \<not> strIncludes line TAG then None
         else if \<not> strIncludes line CRON_COMMAND then None
         else (let parts = splitWs line in
               if length parts < 7 then None
               else Some (join '' '' (take 5 parts), disabled)))"

record ParsedTaggedEntry =
  entry_id :: string
  meta :: "string \<rightharpoonup> string"
  scheduleLine :: "string option"
  scheduleDisabled :: "bool option"
  scheduleExpr :: "string option"
  scheduleTz :: "string option"
  scheduleIndex :: "nat option"

text \<open>A \<^verbatim>\<open>Map\<close> keeps its keys in insertion order; setting a present key keeps its place.\<close>

fun mapSet :: "'k \<Rightarrow> 'v \<Rightarrow> ('k \<times> 'v) list \<Rightarrow> ('k \<times> 'v) list" where
  "mapSet k v [] = [(k, v)]"
| "mapSet k v ((k', v') # r) = (if k = k' then (k, v) # r else (k', v') # mapSet k v r)"

definition newEntry :: "string \<Rightarrow> ParsedTaggedEntry" where
  "newEntry i = \<lparr>entry_id = i, meta = Map.empty, scheduleLine = None, scheduleDisabled = None,
     scheduleExpr = None, scheduleTz = None, scheduleIndex = None\<rparr>"

text \<open>The first loop of \<^verbatim>\<open>findTaggedEntries\<close>, from line index \<open>i\<close> on.\<close>

fun scanLines :: "nat \<Rightarrow> string list \<Rightarrow> (string \<times> ParsedTaggedEntry) list \<Rightarrow> string list
    \<Rightarrow> (string \<times> ParsedTaggedEntry) list \<times> string list" where
  "scanLines i [] entries errors = (entries, errors)"
| "scanLines i (rawLine # rest) entries errors =
     (if \<not> strIncludes (trim rawLine) TAG_PREFIX then scanLines (Suc i) rest entries errors
      else
        (case (case parseTaggedLine rawLine of None \<Rightarrow> None | Some m \<Rightarrow> Some (m, m ''id'')) of
           Some (m, Some ident) \<Rightarrow>
             if ident = [] then
               scanLines (Suc i) rest entries (errors @ [''Tagged cron line missing id: '' @ rawLine])
             else
               (let entry0 = (case map_of entries ident of None \<Rightarrow> newEntry ident | Some e \<Rightarrow> e);
                    entry1 = entry0\<lparr>meta := meta entry0 ++ m\<rparr>;
                    entry2 = (case parseScheduleLine rawLine of
                                None \<Rightarrow> entry1
                              | Some (ex, disabled) \<Rightarrow>
                                  entry1\<lparr>scheduleLine := Some rawLine, scheduleIndex := Some i,
                                    scheduleDisabled := Some disabled, scheduleExpr := Some ex\<rparr>)
                in scanLines (Suc i) rest (mapSet ident entry2 entries) errors)
         | _ \<Rightarrow>
             scanLines (Suc i) rest entries (errors @ [''Tagged cron line missing id: '' @ rawLine])))"

text \<open>The second loop: a \<^verbatim>\<open>CRON_TZ=\<close> line right before the schedule line.\<close>

definition detectTz :: "string list \<Rightarrow> ParsedTaggedEntry \<Rightarrow> ParsedTaggedEntry" where
  "detectTz lines entry =
     (case scheduleIndex entry of
        None \<Rightarrow> entry
      | Some i \<Rightarrow>
          if i \<le> 0 then entry
          else (let prevLine = trim (lines ! (i - 1)) in
                if startsWith prevLine ''CRON_TZ=''
                then entry\<lparr>scheduleTz :=
                       (let z = trim (drop (length ''CRON_TZ='') prevLine) in if z = [] then None else Some z)\<rparr>
                else entry))"

definition findTaggedEntries :: "string list \<Rightarrow> (string \<times> ParsedTaggedEntry) list \<times> string list" where
  "findTaggedEntries lines =
     (case scanLines 0 lines [] [] of
        (entries, errors) \<Rightarrow> (map (\<lambda>(k, e). (k, detectTz lines e)) entries, errors))"

section \<open>The surroundings of the store\<close>

text \<open>
  What the code reaches outside this repository's sources is a field of the environment:
  the host, the clock, the identifier generator, the helpers of \<^verbatim>\<open>service/jobs\<close>, the two
  \<^verbatim>\<open>crontab\<close> commands, the configuration and the collaborators of the run pipeline.
  The clock is read as one value per call.
\<close>

record CommandResult =
  ok :: bool
  stdout :: string
  stderr :: string

record IsolatedTurnResult =
  turn_status :: "string option"
  turn_error :: "string option"
  turn_summary :: "string option"
  turn_sessionId :: "string option"
  turn_sessionKey :: "string option"

text \<open>
  The JSON body of the webhook request: job id, name, status, summary, error, session id
  and session key.  A fetch either answers with \<^verbatim>\<open>res.ok\<close> and a status, or throws.
\<close>

datatype WebhookBody =
  WebhookBody string string string "string option" "string option" "string option" "string option"

datatype FetchResult = Responded bool int | Threw string

record Env =
  host :: Host
  dateNow :: int
  randomUUID :: string
  computeJobNextRunAtMs :: "CronJob \<Rightarrow> int \<Rightarrow> int option"
  isJobDue :: "CronJob \<Rightarrow> int \<Rightarrow> bool"
  crontabList :: CommandResult
  crontabInstall :: "string \<Rightarrow> CommandResult"
  cronEnabledInConfig :: "bool option"
  webhookToken :: "string option"
  resolveDefaultAgentId :: string
  resolveAgentMainSessionKey :: "string \<Rightarrow> string"
  runCronIsolatedAgentTurn :: "CronJob \<Rightarrow> string \<Rightarrow> IsolatedTurnResult"
  normalizeHttpWebhookUrl :: "string option \<Rightarrow> string option"
  fetchWithSsrFGuard :: "string \<Rightarrow> string option \<Rightarrow> WebhookBody \<Rightarrow> FetchResult"

section \<open>Building a job from its entry\<close>

definition orUndefined :: "string option \<Rightarrow> string option" where
  "orUndefined v = (if truthy v then v else None)"

definition trueOrUndefined :: "string option \<Rightarrow> bool option" where
  "trueOrUndefined v = (if v = Some ''true'' then Some True else None)"

definition orElse :: "string option \<Rightarrow> string \<Rightarrow> string" where
  "orElse v d = (case v of None \<Rightarrow> d | Some s \<Rightarrow> s)"

text \<open>\<^verbatim>\<open>text ? Number.parseInt(text, 10) : undefined\<close>; a NaN is no integer and reads \<open>None\<close>.\<close>

definition numberWhenTruthy :: "string option \<Rightarrow> int option" where
  "numberWhenTruthy v = (case v of None \<Rightarrow> None | Some s \<Rightarrow> if s = [] then None else parseInt s)"

definition resolveSchedule :: "(string \<rightharpoonup> string) \<Rightarrow> ParsedTaggedEntry \<Rightarrow> CronSchedule option" where
  "resolveSchedule m entry =
     (let kind = orElse (m ''schedule_kind'') ''cron'' in
      if kind = ''at'' then
        (let a = orElse (m ''schedule_at'') [] in if a = [] then None else Some (At a))
      else if kind = ''every'' then
        (case parseInt (orElse (m ''schedule_every_ms'') []) of
           None \<Rightarrow> None
         | Some ms \<Rightarrow>
             if ms \<le> 0 then None
             else Some (Every ms (numberWhenTruthy (m ''schedule_anchor_ms''))))
      else
        (let ex = (case m ''schedule_expr'' of
                     Some e \<Rightarrow> e
                   | None \<Rightarrow> orElse (scheduleExpr entry) []) in
         if ex = [] then None
         else Some (Cron ex
                     (if truthy (m ''schedule_tz'') then m ''schedule_tz''
                      else orUndefined (scheduleTz entry))
                     (numberWhenTruthy (m ''schedule_stagger_ms'')))))"

text \<open>\<^verbatim>\<open>Number.parseInt(text ?? "0", 10) || Date.now()\<close>\<close>

definition timestampOrNow :: "Env \<Rightarrow> string option \<Rightarrow> int" where
  "timestampOrNow env v =
     (case parseInt (orElse v ''0'') of
        None \<Rightarrow> dateNow env
      | Some n \<Rightarrow> if n = 0 then dateNow env else n)"

definition buildJobFromEntry :: "Env \<Rightarrow> ParsedTaggedEntry \<Rightarrow> CronJob option" where
  "buildJobFromEntry env entry =
     (let m = meta entry;
          ident = (case m ''id'' of None \<Rightarrow> [] | Some i \<Rightarrow> trim i) in
      if ident = [] then None
      else
        (case resolveSchedule m entry of
           None \<Rightarrow> None
         | Some sched \<Rightarrow>
             (let payloadKind = orElse (m ''payload_kind'') ''systemEvent'';
                  pl = (if payloadKind = ''agentTurn'' then
                          AgentTurn \<lparr>message = orElse (m ''payload_message'') [],
                            model = orUndefined (m ''payload_model''),
                            thinking = orUndefined (m ''payload_thinking''),
                            timeoutSeconds = numberWhenTruthy (m ''payload_timeout_seconds''),
                            allowUnsafeExternalContent =
                              trueOrUndefined (m ''payload_allow_unsafe_external_content''),
                            deliver = trueOrUndefined (m ''payload_deliver''),
                            payload_channel = orUndefined (m ''payload_channel''),
                            payload_to = orUndefined (m ''payload_to''),
                            bestEffortDeliver = trueOrUndefined (m ''payload_best_effort_deliver'')\<rparr>
                        else
                          SystemEvent (case m ''payload_text'' of
                                         Some t \<Rightarrow> t
                                       | None \<Rightarrow> orElse (m ''payload_message'') []));
                  deliveryMode = orElse (m ''delivery_mode'') ''none'';
                  dl = (if deliveryMode = ''none'' then None
                        else Some \<lparr>delivery_mode = deliveryMode,
                               delivery_channel = orUndefined (m ''delivery_channel''),
                               delivery_to = orUndefined (m ''delivery_to''),
                               bestEffort = trueOrUndefined (m ''delivery_best_effort'')\<rparr>);
                  en = (if scheduleDisabled entry = Some True then False
                        else m ''enabled'' \<noteq> Some ''false'');
                  job = \<lparr>job_id = ident,
                          agentId = orUndefined (m ''agent_id''),
                          sessionKey = orUndefined (m ''session_key''),
                          name = orElse (m ''name'') ident,
                          description = orUndefined (m ''description''),
                          enabled = en,
                          deleteAfterRun = trueOrUndefined (m ''delete_after_run''),
                          createdAtMs = timestampOrNow env (m ''created_at_ms''),
                          updatedAtMs = timestampOrNow env (m ''updated_at_ms''),
                          schedule = sched,
                          sessionTarget = orElse (m ''session_target'') ''main'',
                          wakeMode = orElse (m ''wake_mode'') ''now'',
                          payload = pl,
                          delivery = dl,
                          state = \<lparr>nextRunAtMs = None\<rparr>\<rparr>
              in Some (if enabled job
                       then job\<lparr>state := \<lparr>nextRunAtMs = computeJobNextRunAtMs env job (dateNow env)\<rparr>\<rparr>
                       else job))))"

section \<open>Reading and writing the crontab\<close>

record CrontabSnapshot =
  snapshot_lines :: "string list"
  snapshot_jobs :: "CronJob list"
  snapshot_errors :: "string list"

text \<open>\<^verbatim>\<open>text.split("\n")\<close>\<close>

fun splitLines :: "string \<Rightarrow> string list" where
  "splitLines [] = [[]]"
| "splitLines (c # cs) =
     (if c = CHR 0x0A then [] # splitLines cs
      else (case splitLines cs of [] \<Rightarrow> [[c]] | w # ws \<Rightarrow> (c # w) # ws))"

text \<open>\<^verbatim>\<open>toLowerCase\<close>, on the ASCII letters.\<close>

definition toLowerCase :: "string \<Rightarrow> string" where
  "toLowerCase s =
     map (\<lambda>c. let n = (of_char c :: nat) in if 65 \<le> n \<and> n \<le> 90 then char_of (n + 32) else c) s"

text \<open>The jobs of a list of lines, as \<^verbatim>\<open>readCrontabSnapshot\<close> builds them.\<close>

definition jobsOfLines :: "Env \<Rightarrow> string list \<Rightarrow> CronJob list" where
  "jobsOfLines env ls =
     List.map_filter (\<lambda>(k, entry). buildJobFromEntry env entry) (fst (findTaggedEntries ls))"

text \<open>
  \<^verbatim>\<open>readCrontabSnapshot\<close>, given the result of \<^verbatim>\<open>crontab -l\<close>.  \<open>Inl\<close> would be a thrown
  error; the body throws nowhere.
\<close>

definition readCrontabSnapshot :: "Env \<Rightarrow> string + CrontabSnapshot" where
  "readCrontabSnapshot env =
     (let listResult = crontabList env;
          ls = (if ok listResult then (if stdout listResult \<noteq> [] then splitLines (stdout listResult) else [])
                else []);
          errs = (if ok listResult then []
                  else if strIncludes (toLowerCase (stderr listResult)) ''no crontab'' then []
                  else [''crontab: '' @ (if stderr listResult \<noteq> [] then stderr listResult
                                          else ''failed to read'')])
      in Inr \<lparr>snapshot_lines = ls,
               snapshot_jobs = jobsOfLines env ls,
               snapshot_errors = errs @ snd (findTaggedEntries ls)\<rparr>)"

text \<open>\<^verbatim>\<open>text.replace(/\n{3,}/g, "\n\n")\<close>; the counter is the length of the current run.\<close>

fun collapseNewlines :: "nat \<Rightarrow> string \<Rightarrow> string" where
  "collapseNewlines n [] = replicate (min n 2) (CHR 0x0A)"
| "collapseNewlines n (c # cs) =
     (if c = CHR 0x0A then collapseNewlines (Suc n) cs
      else replicate (min n 2) (CHR 0x0A) @ c # collapseNewlines 0 cs)"

text \<open>\<^verbatim>\<open>jobs.flatMap(buildTaggedEntryLines)\<close>, stopping at the first job that throws.\<close>

fun entryLinesOfJobs :: "Host \<Rightarrow> CronJob list \<Rightarrow> string + string list" where
  "entryLinesOfJobs h [] = Inr []"
| "entryLinesOfJobs h (job # rest) =
     (case buildTaggedEntryLines h job of
        Inl e \<Rightarrow> Inl e
      | Inr ls \<Rightarrow> (case entryLinesOfJobs h rest of Inl e \<Rightarrow> Inl e | Inr others \<Rightarrow> Inr (ls @ others)))"

text \<open>The content that \<^verbatim>\<open>writeCrontabJobs\<close> pipes to \<^verbatim>\<open>crontab -\<close>.\<close>

definition crontabContent :: "Host \<Rightarrow> CronJob list \<Rightarrow> string list \<Rightarrow> string + string" where
  "crontabContent h jobs existingLines =
     (let filtered = filter (\<lambda>line. \<not> strIncludes line TAG_PREFIX \<and> \<not> strIncludes line TAG) existingLines in
      case entryLinesOfJobs h jobs of
        Inl e \<Rightarrow> Inl e
      | Inr entries \<Rightarrow>
          (let nextLines = filtered @ (if filtered \<noteq> [] then [[]] else []) @ entries @ [[]] in
           Inr (collapseNewlines 0 (join [CHR 0x0A] nextLines))))"

text \<open>
  \<^verbatim>\<open>writeCrontabJobs\<close>: the outcome (\<open>Inl\<close> a thrown error) and the contents installed.
\<close>

definition writeCrontabJobs :: "Env \<Rightarrow> CronJob list \<Rightarrow> string list \<Rightarrow> (string + unit) \<times> string list" where
  "writeCrontabJobs env jobs existingLines =
     (case crontabContent (host env) jobs existingLines of
        Inl e \<Rightarrow> (Inl e, [])
      | Inr content \<Rightarrow>
          (let writeResult = crontabInstall env content in
           if \<not> ok writeResult
           then (Inl (''crontab - failed: '' @ (if stderr writeResult \<noteq> [] then stderr writeResult
                                                 else ''unknown error'')), [content])
           else (Inr (), [content])))"

section \<open>Operations on the job list\<close>

record CronJobCreate =
  new_agentId :: "string option"
  new_sessionKey :: "string option"
  new_name :: string
  new_description :: "string option"
  new_enabled :: "bool option"
  new_deleteAfterRun :: "bool option"
  new_schedule :: CronSchedule
  new_sessionTarget :: string
  new_wakeMode :: string
  new_payload :: Payload
  new_delivery :: "Delivery option"

definition createCronJobFromInput :: "Env \<Rightarrow> CronJobCreate \<Rightarrow> CronJob" where
  "createCronJobFromInput env input =
     \<lparr>job_id = randomUUID env,
      agentId = new_agentId input,
      sessionKey = new_sessionKey input,
      name = new_name input,
      description = new_description input,
      enabled = (case new_enabled input of None \<Rightarrow> True | Some b \<Rightarrow> b),
      deleteAfterRun = new_deleteAfterRun input,
      createdAtMs = dateNow env,
      updatedAtMs = dateNow env,
      schedule = new_schedule input,
      sessionTarget = new_sessionTarget input,
      wakeMode = new_wakeMode input,
      payload = new_payload input,
      delivery = new_delivery input,
      state = \<lparr>nextRunAtMs = None\<rparr>\<rparr>"


definition replaceJobInList :: "CronJob list \<Rightarrow> CronJob \<Rightarrow> CronJob list" where
  "replaceJobInList jobs job = filter (\<lambda>entry. job_id entry \<noteq> job_id job) jobs @ [job]"


section \<open>Running a job\<close>

record CronRunOutcome =
  outcome_status :: string
  outcome_error :: "string option"
  outcome_errorKind :: "string option"
  outcome_summary :: "string option"
  outcome_sessionId :: "string option"
  outcome_sessionKey :: "string option"

datatype RunMode = Due | Force

text \<open>
  \<^verbatim>\<open>CrontabRunResult\<close>: \<open>NotRun reason\<close> is \<^verbatim>\<open>{ok:true, ran:false, reason}\<close>,
  \<open>Ran outcome next\<close> is \<^verbatim>\<open>{ok:true, ran:true, outcome, nextRunAtMs}\<close> and
  \<open>Failed error\<close> is \<^verbatim>\<open>{ok:false, error}\<close>.
\<close>

datatype CrontabRunResult = NotRun string | Ran CronRunOutcome "int option" | Failed string

text \<open>What a run does to its collaborators, in order.\<close>

datatype Effect =
    EnqueueSystemEvent string string
  | RequestHeartbeatNow string string string
  | IsolatedAgentTurn string string
  | WebhookPost string "string option" WebhookBody

definition resolveJobNextRun :: "Env \<Rightarrow> CronJob \<Rightarrow> int \<Rightarrow> int option" where
  "resolveJobNextRun env job nowMs =
     (if \<not> enabled job then None else computeJobNextRunAtMs env job nowMs)"

definition shouldRunJob :: "Env \<Rightarrow> CronJob \<Rightarrow> RunMode \<Rightarrow> bool" where
  "shouldRunJob env job mode = (if mode = Force then True else isJobDue env job (dateNow env))"

text \<open>\<^verbatim>\<open>deliverWebhook\<close> returns \<^verbatim>\<open>delivered\<close> and \<^verbatim>\<open>error\<close>, and the request it made.\<close>

definition deliverWebhook :: "Env \<Rightarrow> CronJob \<Rightarrow> CronRunOutcome \<Rightarrow> (bool \<times> string option) \<times> Effect list" where
  "deliverWebhook env job outcome =
     (case delivery job of
        None \<Rightarrow> ((False, None), [])
      | Some d \<Rightarrow>
          if delivery_mode d \<noteq> ''webhook'' then ((False, None), [])
          else if \<not> truthy (normalizeHttpWebhookUrl env (delivery_to d))
            then ((False, Some ''invalid webhook url''), [])
          else
            (let url = orElse (normalizeHttpWebhookUrl env (delivery_to d)) [];
                 body = WebhookBody (job_id job) (name job) (outcome_status outcome)
                          (outcome_summary outcome) (outcome_error outcome)
                          (outcome_sessionId outcome) (outcome_sessionKey outcome);
                 token = map_option trim (webhookToken env);
                 authorization = (if truthy token then Some (''Bearer '' @ orElse token []) else None)
             in case fetchWithSsrFGuard env url authorization body of
                  Responded resOk resStatus \<Rightarrow>
                    ((resOk, if resOk then None else Some (''webhook failed: '' @ numToString resStatus)),
                     [WebhookPost url authorization body])
                | Threw err \<Rightarrow> ((False, Some err), [WebhookPost url authorization body])))"

text \<open>The fold of a delivery error into the outcome, written once for both branches.\<close>

text \<open>\<^verbatim>\<open>job.payload.kind\<close> and \<^verbatim>\<open>job.delivery?.bestEffort\<close>\<close>

definition payloadKind :: "Payload \<Rightarrow> string" where
  "payloadKind pl = (case pl of SystemEvent _ \<Rightarrow> ''systemEvent'' | AgentTurn _ \<Rightarrow> ''agentTurn'')"

definition jobBestEffort :: "CronJob \<Rightarrow> bool option" where
  "jobBestEffort job = (case delivery job of None \<Rightarrow> None | Some d \<Rightarrow> bestEffort d)"

definition foldDelivery :: "CronJob \<Rightarrow> string option \<Rightarrow> CronRunOutcome \<Rightarrow> CronRunOutcome" where
  "foldDelivery job webhookError outcome =
     (if truthy webhookError \<and> jobBestEffort job \<noteq> Some True
      then outcome\<lparr>outcome_status := ''error'', outcome_error := webhookError,
             outcome_errorKind := Some ''delivery-target''\<rparr>
      else outcome)"

text \<open>The outcome each branch holds before delivery.\<close>

definition mainAgentId :: "Env \<Rightarrow> CronJob \<Rightarrow> string" where
  "mainAgentId env job = (case agentId job of None \<Rightarrow> resolveDefaultAgentId env | Some a \<Rightarrow> a)"

definition mainSessionKey :: "Env \<Rightarrow> CronJob \<Rightarrow> string" where
  "mainSessionKey env job =
     (case sessionKey job of
        None \<Rightarrow> resolveAgentMainSessionKey env (mainAgentId env job)
      | Some k \<Rightarrow> k)"

definition mainOutcome :: "string \<Rightarrow> CronRunOutcome" where
  "mainOutcome sKey =
     \<lparr>outcome_status = ''ok'', outcome_error = None, outcome_errorKind = None,
      outcome_summary = None, outcome_sessionId = None, outcome_sessionKey = Some sKey\<rparr>"

definition isolatedOutcome :: "IsolatedTurnResult \<Rightarrow> CronRunOutcome" where
  "isolatedOutcome result =
     \<lparr>outcome_status = orElse (turn_status result) ''ok'',
      outcome_error = turn_error result, outcome_errorKind = None,
      outcome_summary = turn_summary result,
      outcome_sessionId = turn_sessionId result,
      outcome_sessionKey = turn_sessionKey result\<rparr>"

definition runCrontabJob :: "Env \<Rightarrow> CronJob \<Rightarrow> RunMode \<Rightarrow> CrontabRunResult \<times> Effect list" where
  "runCrontabJob env job mode =
     (if \<not> shouldRunJob env job mode then (NotRun ''not-due'', [])
      else if sessionTarget job = ''main'' then
        (case payload job of
           AgentTurn p \<Rightarrow> (Failed ''main session jobs require systemEvent payload'', [])
         | SystemEvent txt \<Rightarrow>
             (let agent = mainAgentId env job;
                  sKey = mainSessionKey env job;
                  wake = (if wakeMode job = ''now'' \<or> wakeMode job = ''next-heartbeat''
                          then [RequestHeartbeatNow ''cron'' agent sKey] else []);
                  outcome = mainOutcome sKey;
                  webhook = deliverWebhook env job outcome
              in (Ran (foldDelivery job (snd (fst webhook)) outcome)
                      (resolveJobNextRun env job (dateNow env)),
                  EnqueueSystemEvent txt sKey # wake @ snd webhook)))
      else
        (case payload job of
           SystemEvent txt \<Rightarrow> (Failed ''isolated jobs require agentTurn payload'', [])
         | AgentTurn p \<Rightarrow>
             (let result = runCronIsolatedAgentTurn env job (message p);
                  outcome = isolatedOutcome result;
                  webhook = deliverWebhook env job outcome
              in (Ran (foldDelivery job (snd (fst webhook)) outcome)
                      (resolveJobNextRun env job (dateNow env)),
                  IsolatedAgentTurn (job_id job) (message p) # snd webhook))))"

section \<open>The request handlers\<close>

datatype ErrorCode = INVALID_REQUEST | INTERNAL_ERROR

text \<open>
  A handler responds once: with a payload, with an error shape, or, when the crontab is
  not the source of truth, with whatever the in-process cron service answers
  (\<open>FromService\<close>, outside these sources).  \<^verbatim>\<open>String(err)\<close> of a thrown \<^verbatim>\<open>Error\<close> is its
  message after \<^verbatim>\<open>Error: \<close>.
\<close>

datatype 'a Response = RespondOk 'a | RespondError ErrorCode string | FromService

definition errorString :: "string \<Rightarrow> string" where
  "errorString msg = ''Error: '' @ msg"

definition useCrontabSourceOfTruth :: "Env \<Rightarrow> bool" where
  "useCrontabSourceOfTruth env \<longleftrightarrow> cronEnabledInConfig env = Some False"

definition validateCrontabScheduleOrThrow :: "Env \<Rightarrow> CronSchedule \<Rightarrow> string + unit" where
  "validateCrontabScheduleOrThrow env sched =
     (case resolveCrontabSchedule (host env) sched of SchedErr e \<Rightarrow> Inl e | SchedOk _ \<Rightarrow> Inr ())"

text \<open>
  The \<^verbatim>\<open>cron.add\<close> request after normalisation: the verdicts of the two external
  validators (\<open>None\<close> accepts, otherwise the message) and the job to create.
\<close>

record AddRequest =
  add_paramErrors :: "string option"
  add_timestampError :: "string option"
  add_job :: CronJobCreate

definition cronAdd :: "Env \<Rightarrow> AddRequest \<Rightarrow> CronJob Response \<times> string list" where
  "cronAdd env req =
     (case add_paramErrors req of
        Some errs \<Rightarrow> (RespondError INVALID_REQUEST (''invalid cron.add params: '' @ errs), [])
      | None \<Rightarrow>
          (case add_timestampError req of
             Some msg \<Rightarrow> (RespondError INVALID_REQUEST msg, [])
           | None \<Rightarrow>
               if useCrontabSourceOfTruth env then
                 (case validateCrontabScheduleOrThrow env (new_schedule (add_job req)) of
                    Inl err \<Rightarrow> (RespondError INTERNAL_ERROR (errorString err), [])
                  | Inr _ \<Rightarrow>
                      (case readCrontabSnapshot env of
                         Inl err \<Rightarrow> (RespondError INTERNAL_ERROR (errorString err), [])
                       | Inr snapshot \<Rightarrow>
                           (let job = createCronJobFromInput env (add_job req);
                                nextJobs = snapshot_jobs snapshot @ [job]
                            in case writeCrontabJobs env nextJobs (snapshot_lines snapshot) of
                                 (Inl err, written) \<Rightarrow> (RespondError INTERNAL_ERROR (errorString err), written)
                               | (Inr _, written) \<Rightarrow> (RespondOk job, written))))
               else (FromService, [])))"




section \<open>Sample inputs\<close>

text \<open>
  A disabled job that is not due, its crontab after a line of the user, and an environment
  in crontab mode whose webhook target answers 500.
\<close>

definition pingJob :: CronJob where
  "pingJob = \<lparr>job_id = ''job-1'', agentId = None, sessionKey = None, name = ''ping me'',
     description = Some ''a b#c'', enabled = False, deleteAfterRun = None,
     createdAtMs = 1700000000000, updatedAtMs = 1700000000001,
     schedule = Cron ''*/5 * * * *'' None None, sessionTarget = ''main'', wakeMode = ''now'',
     payload = SystemEvent ''wake up'', delivery = None, state = \<lparr>nextRunAtMs = None\<rparr>\<rparr>"

definition pingCrontab :: "string list" where
  "pingCrontab =
     [''0 3 * * * /usr/bin/backup.sh'',
      [],
      ''# openclaw:cron id=job-1 name=ping%20me enabled=false session_target=main wake_mode=now created_at_ms=1700000000000 updated_at_ms=1700000000001 description=a%20b%23c'',
      ''# openclaw:cron id=job-1 payload_kind=systemEvent payload_text=wake%20up'',
      ''# openclaw:cron id=job-1 schedule_kind=cron schedule_expr=*%2F5%20*%20*%20*%20*'',
      ''# */5 * * * * openclaw cron run job-1 # openclaw:cron id=job-1'']"

definition sampleEnv :: Env where
  "sampleEnv = \<lparr>host = utcHost, dateNow = 1900000000000, randomUUID = ''job-2'',
     computeJobNextRunAtMs = (\<lambda>job n. Some (n + 60000)),
     isJobDue = (\<lambda>job n. False),
     crontabList = \<lparr>ok = True, stdout = join [CHR 0x0A] pingCrontab, stderr = []\<rparr>,
     crontabInstall = (\<lambda>content. \<lparr>ok = True, stdout = [], stderr = []\<rparr>),
     cronEnabledInConfig = Some False,
     webhookToken = None,
     resolveDefaultAgentId = ''main'',
     resolveAgentMainSessionKey = (\<lambda>agent. ''agent:'' @ agent @ '':main''),
     runCronIsolatedAgentTurn = (\<lambda>job msg. \<lparr>turn_status = None, turn_error = None,
        turn_summary = Some ''done'', turn_sessionId = None, turn_sessionKey = None\<rparr>),
     normalizeHttpWebhookUrl = (\<lambda>u. u),
     fetchWithSsrFGuard = (\<lambda>url auth body. Responded False 500)\<rparr>"

definition reportTurn :: AgentTurnPayload where
  "reportTurn = \<lparr>message = ''daily report'', model = None, thinking = None,
     timeoutSeconds = Some 120, allowUnsafeExternalContent = None, deliver = Some True,
     payload_channel = Some ''telegram'', payload_to = None, bestEffortDeliver = None\<rparr>"

definition webhookTo :: "bool option \<Rightarrow> Delivery" where
  "webhookTo be = \<lparr>delivery_mode = ''webhook'', delivery_channel = None,
     delivery_to = Some ''http://127.0.0.1:1/'', bestEffort = be\<rparr>"

definition reportJob :: "bool option \<Rightarrow> CronJob" where
  "reportJob be = pingJob\<lparr>sessionTarget := ''isolated'', payload := AgentTurn reportTurn,
     delivery := Some (webhookTo be)\<rparr>"



text \<open>A valid \<^verbatim>\<open>cron.add\<close> request for an interval, and a \<^verbatim>\<open>cron.run\<close> request for the sample job.\<close>

definition everyRequest :: "int \<Rightarrow> AddRequest" where
  "everyRequest ms = \<lparr>add_paramErrors = None, add_timestampError = None,
     add_job = \<lparr>new_agentId = None, new_sessionKey = None, new_name = ''tick'',
       new_description = None, new_enabled = None, new_deleteAfterRun = None,
       new_schedule = Every ms None, new_sessionTarget = ''main'', new_wakeMode = ''now'',
       new_payload = SystemEvent ''tick'', new_delivery = None\<rparr>\<rparr>"


section \<open>Jobs in the form the decoder returns\<close>

text \<open>
  The decoder drops an empty optional text, reads a boolean that is not \<^verbatim>\<open>true\<close> as
  absent, takes a missing name from the id and a zero timestamp from the clock, and the
  id and the expression stand unencoded on the execution line.  A job is in normal form
  when none of this changes it: its id is printable ASCII without space or \<^verbatim>\<open>#\<close>; its
  texts are well-formed UTF-8, its optional texts absent or not empty, its optional
  booleans absent or true; name, session target, wake mode and delivery mode are not
  empty, the delivery mode is not \<^verbatim>\<open>none\<close>; the timestamps are not zero; a cron
  expression is ASCII without \<^verbatim>\<open>#\<close>, does not start with the tag, and carries no time
  zone.
\<close>

text \<open>
  What the decoder reads from the line built from a record of values: the values that are
  not empty, a later one over an earlier one of the same key.
\<close>

definition readBack :: "(string \<times> string) list \<Rightarrow> (string \<rightharpoonup> string)" where
  "readBack vals = map_of (rev (filter (\<lambda>(key, v). v \<noteq> []) vals))"

definition plainIdent :: "string \<Rightarrow> bool" where
  "plainIdent s \<longleftrightarrow>
     s \<noteq> [] \<and> (\<forall>c \<in> set s. 0x21 \<le> (of_char c :: nat) \<and> (of_char c :: nat) \<le> 0x7E \<and> c \<noteq> CHR ''#'')"

definition presentText :: "string option \<Rightarrow> bool" where
  "presentText v \<longleftrightarrow> (case v of None \<Rightarrow> True | Some s \<Rightarrow> s \<noteq> [] \<and> wellFormed s)"

definition notFalse :: "bool option \<Rightarrow> bool" where
  "notFalse v \<longleftrightarrow> v \<noteq> Some False"

definition normalSchedule :: "CronSchedule \<Rightarrow> bool" where
  "normalSchedule s \<longleftrightarrow>
     (case s of
        Cron e z st \<Rightarrow>
          z = None \<and> (\<forall>c \<in> set e. (of_char c :: nat) < 0x80 \<and> c \<noteq> CHR ''#'') \<and> \<not> prefix TAG (trim e)
      | Every ms anchor \<Rightarrow> True
      | At a \<Rightarrow> wellFormed a)"

definition normalPayload :: "Payload \<Rightarrow> bool" where
  "normalPayload pl \<longleftrightarrow>
     (case pl of
        SystemEvent txt \<Rightarrow> wellFormed txt
      | AgentTurn p \<Rightarrow>
          wellFormed (message p) \<and> presentText (model p) \<and> presentText (thinking p)
          \<and> notFalse (allowUnsafeExternalContent p) \<and> notFalse (deliver p)
          \<and> presentText (payload_channel p) \<and> presentText (payload_to p)
          \<and> notFalse (bestEffortDeliver p))"

definition normalDelivery :: "Delivery option \<Rightarrow> bool" where
  "normalDelivery v \<longleftrightarrow>
     (case v of
        None \<Rightarrow> True
      | Some d \<Rightarrow>
          delivery_mode d \<noteq> [] \<and> delivery_mode d \<noteq> ''none'' \<and> wellFormed (delivery_mode d)
          \<and> presentText (delivery_channel d) \<and> presentText (delivery_to d)
          \<and> notFalse (bestEffort d))"

definition normalJob :: "CronJob \<Rightarrow> bool" where
  "normalJob job \<longleftrightarrow>
     plainIdent (job_id job)
     \<and> name job \<noteq> [] \<and> wellFormed (name job)
     \<and> presentText (description job) \<and> presentText (agentId job) \<and> presentText (sessionKey job)
     \<and> notFalse (deleteAfterRun job)
     \<and> createdAtMs job \<noteq> 0 \<and> updatedAtMs job \<noteq> 0
     \<and> sessionTarget job \<noteq> [] \<and> wellFormed (sessionTarget job)
     \<and> wakeMode job \<noteq> [] \<and> wellFormed (wakeMode job)
     \<and> normalPayload (payload job) \<and> normalDelivery (delivery job)
     \<and> normalSchedule (schedule job)"

text \<open>What the decoder makes of the state: the next run of an enabled job, nothing else.\<close>

definition withFreshState :: "Env \<Rightarrow> CronJob \<Rightarrow> CronJob" where
  "withFreshState env job =
     (let bare = job\<lparr>state := \<lparr>nextRunAtMs = None\<rparr>\<rparr> in
      if enabled job
      then bare\<lparr>state := \<lparr>nextRunAtMs = computeJobNextRunAtMs env bare (dateNow env)\<rparr>\<rparr>
      else bare)"

section \<open>Evaluation of the resolver\<close>

lemma numToString_small:
  "numToString 1 = ''1''" "numToString 5 = ''5''"
  by (simp_all add: numToString_def decimalDigits.simps digitChar_def)

text \<open>
  C4, as stated, at every 60000 ms: the resolver does not produce \<^verbatim>\<open>* * * * *\<close>.
\<close>

theorem every_minute_not_plain_star:
  "resolveCrontabSchedule utcHost (Every 60000 None) \<noteq> SchedOk ''* * * * *''"
  by (simp add: resolveCrontabSchedule_def ONE_MINUTE_MS_def numToString_small)

text \<open>
  C4, amended: every 60000 ms gives \<^verbatim>\<open>*/1 * * * *\<close>, every 300000 ms gives
  \<^verbatim>\<open>*/5 * * * *\<close>, every 3600000 ms gives \<^verbatim>\<open>0 */1 * * *\<close>, and 90000 ms and
  59000 ms are rejected with the granularity error.
\<close>

theorem every_feasibility_examples:
  "resolveCrontabSchedule h (Every 60000 None) = SchedOk ''*/1 * * * *''
   \<and> resolveCrontabSchedule h (Every 300000 None) = SchedOk ''*/5 * * * *''
   \<and> resolveCrontabSchedule h (Every 3600000 None) = SchedOk ''0 */1 * * *''
   \<and> resolveCrontabSchedule h (Every 90000 None) = SchedErr ''crontab scheduler supports 1-minute granularity''
   \<and> resolveCrontabSchedule h (Every 59000 None) = SchedErr ''crontab scheduler supports 1-minute granularity''"
  by (simp add: resolveCrontabSchedule_def ONE_MINUTE_MS_def ONE_HOUR_MS_def numToString_small)


section \<open>The run pipeline\<close>

lemma shouldRunJob_Force [simp]: "shouldRunJob env job Force"
  by (simp add: shouldRunJob_def)


text \<open>
  C7: under \<^verbatim>\<open>mode="force"\<close>, a job for the main session whose payload is not a system
  event fails with \<^verbatim>\<open>main session jobs require systemEvent payload\<close>, and a job for an
  isolated session whose payload is not an agent turn fails with
  \<^verbatim>\<open>isolated jobs require agentTurn payload\<close>; in both cases nothing is dispatched
  (no effect, so no isolated turn).
\<close>

theorem session_target_payload_pairing:
  "(sessionTarget job = ''main'' \<and> payloadKind (payload job) \<noteq> ''systemEvent''
      \<longrightarrow> runCrontabJob env job Force = (Failed ''main session jobs require systemEvent payload'', []))
   \<and> (sessionTarget job = ''isolated'' \<and> payloadKind (payload job) \<noteq> ''agentTurn''
      \<longrightarrow> runCrontabJob env job Force = (Failed ''isolated jobs require agentTurn payload'', []))"
  by (cases "payload job") (simp_all add: runCrontabJob_def payloadKind_def)

theorem session_target_payload_pairing_witness:
  "sessionTarget (pingJob\<lparr>payload := AgentTurn reportTurn\<rparr>) = ''main''
   \<and> payloadKind (payload (pingJob\<lparr>payload := AgentTurn reportTurn\<rparr>)) \<noteq> ''systemEvent''
   \<and> runCrontabJob sampleEnv (pingJob\<lparr>payload := AgentTurn reportTurn\<rparr>) Force
       = (Failed ''main session jobs require systemEvent payload'', [])
   \<and> sessionTarget (pingJob\<lparr>sessionTarget := ''isolated''\<rparr>) = ''isolated''
   \<and> payloadKind (payload (pingJob\<lparr>sessionTarget := ''isolated''\<rparr>)) \<noteq> ''agentTurn''
   \<and> runCrontabJob sampleEnv (pingJob\<lparr>sessionTarget := ''isolated''\<rparr>) Force
       = (Failed ''isolated jobs require agentTurn payload'', [])"
  using session_target_payload_pairing [of "pingJob\<lparr>payload := AgentTurn reportTurn\<rparr>" sampleEnv]
    session_target_payload_pairing [of "pingJob\<lparr>sessionTarget := ''isolated''\<rparr>" sampleEnv]
  by (simp add: pingJob_def payloadKind_def)

text \<open>
  C8: when a job runs, in either branch, the result is \<^verbatim>\<open>{ok:true, ran:true}\<close> with an
  outcome such that: if the webhook delivery yields an error (a non-empty error text) and
  \<^verbatim>\<open>delivery.bestEffort\<close> is not true, the outcome is the one held before delivery with
  status \<^verbatim>\<open>error\<close>, the webhook error and error kind \<^verbatim>\<open>delivery-target\<close>; if
  \<^verbatim>\<open>bestEffort\<close> is true, the outcome is the one held before delivery, unchanged.
\<close>

theorem webhook_failure_folding:
  "(sessionTarget job = ''main'' \<and> payload job = SystemEvent txt \<and> shouldRunJob env job mode \<longrightarrow>
      (\<exists>final next effects.
         runCrontabJob env job mode = (Ran final next, effects)
         \<and> (\<forall>e. snd (fst (deliverWebhook env job (mainOutcome (mainSessionKey env job)))) = Some e
                 \<and> e \<noteq> [] \<and> jobBestEffort job \<noteq> Some True
               \<longrightarrow> final = (mainOutcome (mainSessionKey env job))
                     \<lparr>outcome_status := ''error'', outcome_error := Some e,
                      outcome_errorKind := Some ''delivery-target''\<rparr>)
         \<and> (jobBestEffort job = Some True \<longrightarrow> final = mainOutcome (mainSessionKey env job))))
   \<and> (sessionTarget job \<noteq> ''main'' \<and> payload job = AgentTurn p \<and> shouldRunJob env job mode \<longrightarrow>
      (\<exists>final next effects.
         runCrontabJob env job mode = (Ran final next, effects)
         \<and> (\<forall>e. snd (fst (deliverWebhook env job
                     (isolatedOutcome (runCronIsolatedAgentTurn env job (message p))))) = Some e
                 \<and> e \<noteq> [] \<and> jobBestEffort job \<noteq> Some True
               \<longrightarrow> final = (isolatedOutcome (runCronIsolatedAgentTurn env job (message p)))
                     \<lparr>outcome_status := ''error'', outcome_error := Some e,
                      outcome_errorKind := Some ''delivery-target''\<rparr>)
         \<and> (jobBestEffort job = Some True
               \<longrightarrow> final = isolatedOutcome (runCronIsolatedAgentTurn env job (message p)))))"
  by (simp add: runCrontabJob_def foldDelivery_def truthy_def Let_def)

lemma numToString_500: "numToString 500 = ''500''"
  by (simp add: numToString_def decimalDigits.simps digitChar_def)

lemma sample_delivery:
  "deliverWebhook sampleEnv (pingJob\<lparr>delivery := Some (webhookTo be)\<rparr>) outcome
     = ((False, Some ''webhook failed: 500''),
        [WebhookPost ''http://127.0.0.1:1/'' None
           (WebhookBody ''job-1'' ''ping me'' (outcome_status outcome) (outcome_summary outcome)
              (outcome_error outcome) (outcome_sessionId outcome) (outcome_sessionKey outcome))])"
  "deliverWebhook sampleEnv (reportJob be) outcome
     = ((False, Some ''webhook failed: 500''),
        [WebhookPost ''http://127.0.0.1:1/'' None
           (WebhookBody ''job-1'' ''ping me'' (outcome_status outcome) (outcome_summary outcome)
              (outcome_error outcome) (outcome_sessionId outcome) (outcome_sessionKey outcome))])"
  by (simp_all add: deliverWebhook_def reportJob_def pingJob_def webhookTo_def sampleEnv_def truthy_def
      orElse_def numToString_500)

theorem webhook_failure_folding_witness:
  "runCrontabJob sampleEnv (pingJob\<lparr>delivery := Some (webhookTo (Some False))\<rparr>) Force
     = (Ran \<lparr>outcome_status = ''error'', outcome_error = Some ''webhook failed: 500'',
              outcome_errorKind = Some ''delivery-target'', outcome_summary = None,
              outcome_sessionId = None, outcome_sessionKey = Some ''agent:main:main''\<rparr> None,
        [EnqueueSystemEvent ''wake up'' ''agent:main:main'',
         RequestHeartbeatNow ''cron'' ''main'' ''agent:main:main'',
         WebhookPost ''http://127.0.0.1:1/'' None
           (WebhookBody ''job-1'' ''ping me'' ''ok'' None None None (Some ''agent:main:main''))])
   \<and> fst (runCrontabJob sampleEnv (pingJob\<lparr>delivery := Some (webhookTo (Some True))\<rparr>) Force)
       = Ran (mainOutcome ''agent:main:main'') None
   \<and> fst (runCrontabJob sampleEnv (reportJob None) Force)
       = Ran \<lparr>outcome_status = ''error'', outcome_error = Some ''webhook failed: 500'',
              outcome_errorKind = Some ''delivery-target'', outcome_summary = Some ''done'',
              outcome_sessionId = None, outcome_sessionKey = None\<rparr> None
   \<and> fst (runCrontabJob sampleEnv (reportJob (Some True)) Force)
       = Ran \<lparr>outcome_status = ''ok'', outcome_error = None,
              outcome_errorKind = None, outcome_summary = Some ''done'',
              outcome_sessionId = None, outcome_sessionKey = None\<rparr> None"
proof -
  let ?strict = "pingJob\<lparr>delivery := Some (webhookTo (Some False))\<rparr>"
  let ?lenient = "pingJob\<lparr>delivery := Some (webhookTo (Some True))\<rparr>"
  have k: "mainSessionKey sampleEnv (pingJob\<lparr>delivery := d\<rparr>) = ''agent:main:main''"
    "mainAgentId sampleEnv (pingJob\<lparr>delivery := d\<rparr>) = ''main''" for d
    by (simp_all add: mainSessionKey_def mainAgentId_def pingJob_def sampleEnv_def)
  have m: "sessionTarget (pingJob\<lparr>delivery := d\<rparr>) = ''main''"
    "payload (pingJob\<lparr>delivery := d\<rparr>) = SystemEvent ''wake up''"
    "wakeMode (pingJob\<lparr>delivery := d\<rparr>) = ''now''"
    "enabled (pingJob\<lparr>delivery := d\<rparr>) = False"
    "jobBestEffort (pingJob\<lparr>delivery := Some (webhookTo be)\<rparr>) = be" for d be
    by (simp_all add: pingJob_def jobBestEffort_def webhookTo_def)
  have i: "sessionTarget (reportJob be) \<noteq> ''main''" "payload (reportJob be) = AgentTurn reportTurn"
    "jobBestEffort (reportJob be) = be" "enabled (reportJob be) = False"
    "runCronIsolatedAgentTurn sampleEnv job msg = \<lparr>turn_status = None, turn_error = None,
        turn_summary = Some ''done'', turn_sessionId = None, turn_sessionKey = None\<rparr>" for be job msg
    by (simp_all add: reportJob_def pingJob_def jobBestEffort_def webhookTo_def sampleEnv_def)
  show ?thesis
    using webhook_failure_folding [of ?strict "''wake up''" sampleEnv Force reportTurn]
      webhook_failure_folding [of ?lenient "''wake up''" sampleEnv Force reportTurn]
      webhook_failure_folding [of "reportJob None" "''wake up''" sampleEnv Force reportTurn]
      webhook_failure_folding [of "reportJob (Some True)" "''wake up''" sampleEnv Force reportTurn]
    by (simp add: k m i sample_delivery mainOutcome_def isolatedOutcome_def orElse_def
        runCrontabJob_def foldDelivery_def truthy_def resolveJobNextRun_def Let_def)
qed

section \<open>Reading the crontab\<close>

lemma jobsOfLines_Nil [simp]: "jobsOfLines env [] = []"
  by (simp add: jobsOfLines_def findTaggedEntries_def List.map_filter_simps)

lemma findTaggedEntries_Nil [simp]: "findTaggedEntries [] = ([], [])"
  by (simp add: findTaggedEntries_def)




section \<open>The request handlers\<close>

text \<open>
  C5, at a valid \<^verbatim>\<open>cron.add\<close> request for an interval of 45000 ms in crontab mode: the
  handler answers with the code for internal errors and the reason after \<^verbatim>\<open>Error: \<close>;
  nothing is written.
\<close>

theorem add_infeasible_schedule_internal_error:
  "cronAdd sampleEnv (everyRequest 45000)
     = (RespondError INTERNAL_ERROR ''Error: crontab scheduler supports 1-minute granularity'', [])"
  by (simp add: cronAdd_def everyRequest_def sampleEnv_def useCrontabSourceOfTruth_def
      validateCrontabScheduleOrThrow_def resolveCrontabSchedule_def ONE_MINUTE_MS_def errorString_def)






section \<open>The enabled flag in the encoding\<close>

lemma feasible_no_tz:
  assumes "resolveCrontabSchedule h s = SchedOk e"
  shows "scheduleTzOf s = None"
proof (cases s)
  case (Cron ex z st)
  with assms have "\<not> truthy z"
    by (auto simp add: resolveCrontabSchedule_def Let_def split: if_splits)
  with Cron show ?thesis by (simp add: scheduleTzOf_def)
qed (simp_all add: scheduleTzOf_def)

lemma baseValues_enabled:
  "baseValues (job\<lparr>enabled := b\<rparr>) = (baseValues job)[2 := (''enabled'', boolText b)]"
  by (simp add: baseValues_def)

lemma otherValues_enabled:
  "payloadValues (job\<lparr>enabled := b\<rparr>) = payloadValues job"
  "deliveryValues (job\<lparr>enabled := b\<rparr>) d = deliveryValues job d"
  "scheduleValues (job\<lparr>enabled := b\<rparr>) = scheduleValues job"
  by (simp_all add: payloadValues_def deliveryValues_def scheduleValues_def
      split: Payload.splits CronSchedule.splits)

lemma metadataLines_enabled:
  "metadataLines (job\<lparr>enabled := b\<rparr>)
     = buildTaggedLine ((baseValues job)[2 := (''enabled'', boolText b)]) # tl (metadataLines job)"
  by (simp add: metadataLines_def baseValues_enabled otherValues_enabled split: option.splits)

lemma buildTaggedEntryLines_enabled:
  assumes "resolveCrontabSchedule h (schedule job) = SchedOk e"
  shows "buildTaggedEntryLines h (job\<lparr>enabled := b\<rparr>)
     = Inr (buildTaggedLine ((baseValues job)[2 := (''enabled'', boolText b)]) # tl (metadataLines job)
            @ [(if b then [] else ''# '') @ executionLine e (job_id job)])"
  using assms feasible_no_tz [OF assms]
  by (simp add: buildTaggedEntryLines_def metadataLines_enabled)

text \<open>
  C9, as stated, at the sample job: the metadata lines of the enabled and of the disabled
  encoding are not identical.
\<close>

theorem enabled_flag_changes_base_line:
  "metadataLines (pingJob\<lparr>enabled := True\<rparr>) \<noteq> metadataLines (pingJob\<lparr>enabled := False\<rparr>)"
  by code_simp

text \<open>
  C9, amended: when the enabled job encodes, so does the disabled one, in as many lines;
  the first line is the base metadata line, which differs in its \<^verbatim>\<open>enabled=\<close> value
  only; the last line, the execution line, gains the prefix \<^verbatim>\<open># \<close>; every line in
  between is the same.
\<close>

theorem disable_toggle_frame:
  assumes "buildTaggedEntryLines h (job\<lparr>enabled := True\<rparr>) = Inr on"
  shows "\<exists>off. buildTaggedEntryLines h (job\<lparr>enabled := False\<rparr>) = Inr off
           \<and> length off = length on
           \<and> (\<forall>i < length on. 0 < i \<and> i + 1 < length on \<longrightarrow> off ! i = on ! i)
           \<and> last off = ''# '' @ last on
           \<and> hd on = buildTaggedLine ((baseValues job)[2 := (''enabled'', ''true'')])
           \<and> hd off = buildTaggedLine ((baseValues job)[2 := (''enabled'', ''false'')])"
proof -
  from assms obtain e where e: "resolveCrontabSchedule h (schedule job) = SchedOk e"
    by (cases "resolveCrontabSchedule h (schedule job)") (simp_all add: buildTaggedEntryLines_def)
  let ?mid = "tl (metadataLines job)"
  let ?x = "executionLine e (job_id job)"
  have on: "on = buildTaggedLine ((baseValues job)[2 := (''enabled'', ''true'')]) # ?mid @ [?x]"
    using assms buildTaggedEntryLines_enabled [OF e, of True] by (simp add: boolText_def)
  have off: "buildTaggedEntryLines h (job\<lparr>enabled := False\<rparr>)
      = Inr (buildTaggedLine ((baseValues job)[2 := (''enabled'', ''false'')]) # ?mid @ [''# '' @ ?x])"
    using buildTaggedEntryLines_enabled [OF e, of False] by (simp add: boolText_def)
  show ?thesis
    unfolding off on
    by (auto simp add: nth_Cons nth_append split: nat.splits)
qed

theorem disable_toggle_frame_witness:
  "buildTaggedEntryLines utcHost (pingJob\<lparr>enabled := True\<rparr>)
     = Inr [''# openclaw:cron id=job-1 name=ping%20me enabled=true session_target=main wake_mode=now created_at_ms=1700000000000 updated_at_ms=1700000000001 description=a%20b%23c'',
            ''# openclaw:cron id=job-1 payload_kind=systemEvent payload_text=wake%20up'',
            ''# openclaw:cron id=job-1 schedule_kind=cron schedule_expr=*%2F5%20*%20*%20*%20*'',
            ''*/5 * * * * openclaw cron run job-1 # openclaw:cron id=job-1'']
   \<and> (\<exists>off. buildTaggedEntryLines utcHost (pingJob\<lparr>enabled := False\<rparr>) = Inr off
          \<and> length off = 4
          \<and> off ! 1 = ''# openclaw:cron id=job-1 payload_kind=systemEvent payload_text=wake%20up''
          \<and> off ! 2 = ''# openclaw:cron id=job-1 schedule_kind=cron schedule_expr=*%2F5%20*%20*%20*%20*''
          \<and> last off = ''# */5 * * * * openclaw cron run job-1 # openclaw:cron id=job-1'')"
proof -
  have on: "buildTaggedEntryLines utcHost (pingJob\<lparr>enabled := True\<rparr>)
     = Inr [''# openclaw:cron id=job-1 name=ping%20me enabled=true session_target=main wake_mode=now created_at_ms=1700000000000 updated_at_ms=1700000000001 description=a%20b%23c'',
            ''# openclaw:cron id=job-1 payload_kind=systemEvent payload_text=wake%20up'',
            ''# openclaw:cron id=job-1 schedule_kind=cron schedule_expr=*%2F5%20*%20*%20*%20*'',
            ''*/5 * * * * openclaw cron run job-1 # openclaw:cron id=job-1'']"
    by code_simp
  from disable_toggle_frame [OF on] obtain off where
    off: "buildTaggedEntryLines utcHost (pingJob\<lparr>enabled := False\<rparr>) = Inr off"
      "length off = 4" "\<forall>i<4. 0 < i \<and> i + 1 < 4 \<longrightarrow> off ! i
         = [''# openclaw:cron id=job-1 name=ping%20me enabled=true session_target=main wake_mode=now created_at_ms=1700000000000 updated_at_ms=1700000000001 description=a%20b%23c'',
            ''# openclaw:cron id=job-1 payload_kind=systemEvent payload_text=wake%20up'',
            ''# openclaw:cron id=job-1 schedule_kind=cron schedule_expr=*%2F5%20*%20*%20*%20*'',
            ''*/5 * * * * openclaw cron run job-1 # openclaw:cron id=job-1''] ! i"
      "last off = ''# '' @ ''*/5 * * * * openclaw cron run job-1 # openclaw:cron id=job-1''"
    by auto
  from off(3) have "off ! 1 = ''# openclaw:cron id=job-1 payload_kind=systemEvent payload_text=wake%20up''"
    "off ! 2 = ''# openclaw:cron id=job-1 schedule_kind=cron schedule_expr=*%2F5%20*%20*%20*%20*''"
    by simp_all
  with on off show ?thesis by simp
qed

section \<open>Rounding of at-schedules\<close>







section \<open>Substrings\<close>




section \<open>Lines that a write keeps\<close>

lemma splitLines_not_Nil [simp]: "splitLines s \<noteq> []"
  by (induction s) (auto split: list.splits)













end
